theory Spec2Isabelle
  imports Complex_Main
begin

section \<open>Python values, exceptions and built-ins\<close>

text \<open>
  The program is a Flask application over one SQLite table, \<open>jmeter_samples\<close>.
  Python floats are modelled as \<^typ>\<open>real\<close> (exact arithmetic), Python's unbounded
  integers as \<^typ>\<open>int\<close>, and every exception the modelled code can raise is a value
  of \<open>py_error\<close>, returned as \<open>Inl\<close>.
\<close>

datatype py_error =
    IndexError | TypeError | ValueError | AttributeError | OverflowError | SqlBindError

text \<open>The body of a request as \<open>request.json\<close> hands it over: a parsed JSON value.
  An object is the list of its members; a lookup takes the first binding of a key.\<close>

datatype json =
    JNull
  | JBool bool
  | JInt int
  | JFloat real
  | JStr string
  | JArr "json list"
  | JObj "(string \<times> json) list"

text \<open>\<open>xs[i]\<close>: a negative index counts from the end, an index out of range raises.\<close>

definition py_index :: "'a list \<Rightarrow> int \<Rightarrow> py_error + 'a" where
  "py_index xs i =
     (if 0 \<le> i \<and> i < int (length xs) then Inr (xs ! nat i)
      else if i < 0 \<and> - int (length xs) \<le> i then Inr (xs ! nat (int (length xs) + i))
      else Inl IndexError)"

text \<open>\<open>int(x)\<close> of a float truncates towards zero.\<close>

definition py_int_of_float :: "real \<Rightarrow> int" where
  "py_int_of_float x = (if 0 \<le> x then \<lfloor>x\<rfloor> else \<lceil>x\<rceil>)"

text \<open>\<open>round(x, 2)\<close>: to the nearest multiple of 1/100, a tie going to the even one.\<close>

definition round_half_even :: "real \<Rightarrow> int" where
  "round_half_even x =
     (let f = \<lfloor>x\<rfloor>; d = x - real_of_int f
      in if d < 1 / 2 then f
         else if 1 / 2 < d then f + 1
         else if even f then f else f + 1)"

definition round2 :: "real \<Rightarrow> real" where
  "round2 x = real_of_int (round_half_even (x * 100)) / 100"

text \<open>\<open>round(v, 2)\<close> where \<open>v\<close> may be \<open>None\<close>: rounding \<open>None\<close> raises TypeError.\<close>

definition py_round2 :: "real option \<Rightarrow> py_error + real" where
  "py_round2 v = (case v of None \<Rightarrow> Inl TypeError | Some x \<Rightarrow> Inr (round2 x))"

text \<open>Truth value of a JSON value in a Python condition.\<close>

fun truthy :: "json \<Rightarrow> bool" where
  "truthy JNull = False"
| "truthy (JBool b) = b"
| "truthy (JInt i) = (i \<noteq> 0)"
| "truthy (JFloat r) = (r \<noteq> 0)"
| "truthy (JStr s) = (s \<noteq> [])"
| "truthy (JArr xs) = (xs \<noteq> [])"
| "truthy (JObj kvs) = (kvs \<noteq> [])"

text \<open>\<open>d.get(k, default)\<close> and \<open>k in d\<close>.\<close>

definition dict_get :: "(string \<times> json) list \<Rightarrow> string \<Rightarrow> json \<Rightarrow> json" where
  "dict_get d k dflt = (case map_of d k of Some v \<Rightarrow> v | None \<Rightarrow> dflt)"

definition dict_has :: "(string \<times> json) list \<Rightarrow> string \<Rightarrow> bool" where
  "dict_has d k = (map_of d k \<noteq> None)"

text \<open>\<open>v > 0\<close>: defined on numbers and booleans, a TypeError on anything else.\<close>

fun py_gt_zero :: "json \<Rightarrow> py_error + bool" where
  "py_gt_zero (JInt i) = Inr (0 < i)"
| "py_gt_zero (JFloat r) = Inr (0 < r)"
| "py_gt_zero (JBool b) = Inr b"
| "py_gt_zero v = Inl TypeError"

text \<open>
  What the Python runtime does with text is not part of the repository and is taken as a
  parameter: parsing a string as a float or as an integer (\<open>None\<close> is a ValueError), and
  \<open>str()\<close> of floats, lists and dicts.
\<close>

record py_runtime =
  str_to_float :: "string \<Rightarrow> real option"
  str_to_int :: "string \<Rightarrow> int option"
  str_of_other :: "json \<Rightarrow> string"

text \<open>\<open>float(v)\<close>, \<open>int(v)\<close> and \<open>str(v)\<close>. Floats being reals here, \<open>float\<close> of an
  integer is exact and never overflows.\<close>

fun py_float :: "py_runtime \<Rightarrow> json \<Rightarrow> py_error + real" where
  "py_float R (JFloat r) = Inr r"
| "py_float R (JInt i) = Inr (real_of_int i)"
| "py_float R (JBool b) = Inr (if b then 1 else 0)"
| "py_float R (JStr s) = (case str_to_float R s of Some r \<Rightarrow> Inr r | None \<Rightarrow> Inl ValueError)"
| "py_float R v = Inl TypeError"

fun py_to_int :: "py_runtime \<Rightarrow> json \<Rightarrow> py_error + int" where
  "py_to_int R (JInt i) = Inr i"
| "py_to_int R (JBool b) = Inr (if b then 1 else 0)"
| "py_to_int R (JFloat r) = Inr (py_int_of_float r)"
| "py_to_int R (JStr s) = (case str_to_int R s of Some i \<Rightarrow> Inr i | None \<Rightarrow> Inl ValueError)"
| "py_to_int R v = Inl TypeError"

definition digit_char :: "nat \<Rightarrow> char" where
  "digit_char d = char_of (48 + d)"

function digits_of :: "nat \<Rightarrow> string" where
  "digits_of n = (if n < 10 then [digit_char n] else digits_of (n div 10) @ [digit_char (n mod 10)])"
  by pat_completeness auto
termination
  by (relation "measure (\<lambda>n. n)") auto

definition show_int :: "int \<Rightarrow> string" where
  "show_int i = (if i < 0 then CHR ''-'' # digits_of (nat (- i)) else digits_of (nat i))"

fun py_str :: "py_runtime \<Rightarrow> json \<Rightarrow> string" where
  "py_str R (JStr s) = s"
| "py_str R (JInt i) = show_int i"
| "py_str R (JBool b) = (if b then ''True'' else ''False'')"
| "py_str R JNull = ''None''"
| "py_str R v = str_of_other R v"

section \<open>The sample table\<close>

text \<open>
  One row of \<open>jmeter_samples\<close> (the \<open>id\<close> column is the position in the list).
  \<open>label\<close> and \<open>error_message\<close> hold the Python object that \<open>receive_metrics\<close> binds to
  the INSERT, unconverted; \<open>success\<close> is the integer the code writes, 1 or 0.
\<close>

record sample =
  timestamp :: int
  label :: json
  response_time :: real
  success :: int
  thread_count :: int
  status_code :: string
  error_message :: json

text \<open>
  Binding a parameter to the INSERT: sqlite3 refuses lists and dicts, and integers
  outside 64 bits.
\<close>

definition sql_int_ok :: "int \<Rightarrow> bool" where
  "sql_int_ok i = (- (2 ^ 63) \<le> i \<and> i < 2 ^ 63)"

fun sql_bind :: "json \<Rightarrow> py_error option" where
  "sql_bind (JArr xs) = Some SqlBindError"
| "sql_bind (JObj kvs) = Some SqlBindError"
| "sql_bind (JInt i) = (if sql_int_ok i then None else Some OverflowError)"
| "sql_bind v = None"

text \<open>
  The WHERE clauses the handlers build are conjunctions of these conditions; \<open>run_select\<close>
  is the rows of the table that satisfy all of them, in table order.
\<close>

datatype cond =
    LabelEq string
  | TsGe int
  | TsLe int
  | TsBetween int int
  | SuccessEq int

fun holds :: "cond \<Rightarrow> sample \<Rightarrow> bool" where
  "holds (LabelEq l) s = (label s = JStr l)"
| "holds (TsGe t) s = (t \<le> timestamp s)"
| "holds (TsLe t) s = (timestamp s \<le> t)"
| "holds (TsBetween a b) s = (a \<le> timestamp s \<and> timestamp s \<le> b)"
| "holds (SuccessEq v) s = (success s = v)"

definition run_select :: "cond list \<Rightarrow> sample list \<Rightarrow> sample list" where
  "run_select conds store = filter (\<lambda>s. list_all (\<lambda>c. holds c s) conds) store"

text \<open>\<open>SELECT timestamp, COUNT(*) ... GROUP BY timestamp ORDER BY timestamp ASC\<close> and
  \<open>SELECT timestamp, AVG(thread_count) ... GROUP BY timestamp ORDER BY timestamp ASC\<close>.\<close>

definition sql_count_by_ts :: "cond list \<Rightarrow> sample list \<Rightarrow> (int \<times> int) list" where
  "sql_count_by_ts conds store =
     (let sel = run_select conds store
      in map (\<lambda>t. (t, int (length (filter (\<lambda>s. timestamp s = t) sel))))
           (sort (remdups (map timestamp sel))))"


text \<open>A dict comprehension \<open>{r[0]: r[1] for r in rows}\<close>: a later row overwrites an earlier
  one with the same key.\<close>

definition dict_of_rows :: "('k \<times> 'v) list \<Rightarrow> 'k \<Rightarrow> 'v option" where
  "dict_of_rows rows = map_of (rev rows)"

section \<open>Ingest: \<open>receive_metrics\<close>\<close>

datatype http_response = Ok200 | NoJson400

text \<open>
  \<open>receive_metrics R now data store\<close>: the handler of POST /metrics on the body \<open>data\<close>, at
  clock reading \<open>now\<close> (\<open>time.time()\<close>), over the table \<open>store\<close>. It returns the response and
  the table afterwards, or the exception that ended the request (the table is then unchanged:
  nothing was committed).
\<close>

text \<open>The success flag of a payload (lines 49 to 53): an explicit \<open>success\<close> decides by its
  truth value, else an \<open>errorPct\<close> above 0 is a failure, else the request succeeded.\<close>

definition payload_success :: "(string \<times> json) list \<Rightarrow> py_error + int" where
  "payload_success d =
     (if dict_has d ''success'' then
        Inr (if truthy (dict_get d ''success'' JNull) then 1 else 0)
      else if dict_has d ''errorPct'' then
        (case py_gt_zero (dict_get d ''errorPct'' (JInt 0)) of
           Inl e \<Rightarrow> Inl e
         | Inr b \<Rightarrow> Inr (if b then 0 else 1))
      else Inr 1)"

text \<open>The first parameter of the INSERT that sqlite3 refuses, if any.\<close>

definition bind_all :: "json list \<Rightarrow> py_error option" where
  "bind_all vs = (case List.find (\<lambda>e. e \<noteq> None) (map sql_bind vs) of Some e \<Rightarrow> e | None \<Rightarrow> None)"

definition receive_metrics ::
  "py_runtime \<Rightarrow> real \<Rightarrow> json \<Rightarrow> sample list \<Rightarrow> py_error + (http_response \<times> sample list)" where
  "receive_metrics R now data store =
     (if \<not> truthy data then Inr (NoJson400, store)
      else case data of
        JObj d \<Rightarrow>
          (let lab = dict_get d ''label'' (dict_get d ''sampler'' (JStr ''ALL''));
               rt = dict_get d ''responseTime''
                      (dict_get d ''avgResponseTime'' (dict_get d ''avg'' (JFloat 0)))
           in case payload_success d of
                Inl e \<Rightarrow> Inl e
              | Inr succ \<Rightarrow>
                  (let sc = py_str R (dict_get d ''statusCode'' (dict_get d ''rc'' (JStr ''200'')));
                       msg = (if succ = 0
                              then dict_get d ''errorMessage'' (dict_get d ''errorMsg'' (JStr []))
                              else JStr [])
                   in case py_to_int R (dict_get d ''activeThreads'' (dict_get d ''threads'' (JInt 0))) of
                        Inl e \<Rightarrow> Inl e
                      | Inr tc \<Rightarrow>
                          (let ts = py_int_of_float now
                           in case py_float R rt of
                                Inl e \<Rightarrow> Inl e
                              | Inr rtf \<Rightarrow>
                                  (case bind_all [JInt ts, lab, JInt tc, msg] of
                                     Some e \<Rightarrow> Inl e
                                   | None \<Rightarrow>
                                       Inr (Ok200,
                                            store @
                                            [\<lparr>timestamp = ts, label = lab, response_time = rtf,
                                              success = succ, thread_count = tc, status_code = sc,
                                              error_message = msg\<rparr>])))))
      | _ \<Rightarrow> Inl AttributeError)"

section \<open>Percentiles\<close>

definition percentile :: "real list \<Rightarrow> real \<Rightarrow> py_error + real option" where
  "percentile sorted_list pct =
     (if sorted_list = [] then Inr None
      else
        let k = real_of_int (int (length sorted_list) - 1) * (pct / 100);
            f = \<lfloor>k\<rfloor>;
            c = \<lceil>k\<rceil>
        in if f = c then
             (case py_index sorted_list (py_int_of_float k) of
                Inl e \<Rightarrow> Inl e
              | Inr v \<Rightarrow> Inr (Some v))
           else
             (case py_index sorted_list f of
                Inl e \<Rightarrow> Inl e
              | Inr a \<Rightarrow>
                  (case py_index sorted_list c of
                     Inl e \<Rightarrow> Inl e
                   | Inr b \<Rightarrow>
                       Inr (Some (a * (real_of_int c - k) + b * (k - real_of_int f))))))"

section \<open>Aggregate: \<open>api_aggregate\<close>\<close>

text \<open>
  The aggregate modelled is \<open>api_aggregate\<close> of notreqired.py, the one with percentiles.
  The \<open>api_aggregate\<close> of server.py leaves the grouping to SQL
  (\<open>GROUP BY label ORDER BY label\<close>) and takes its cursor from a global \<open>db\<close> that no
  file of the repository defines, so that each call ends in a NameError before a row exists.
\<close>

text \<open>
  The first loop of \<open>api_aggregate\<close> fills a dict from label to
  \<open>{"samples": [...], "errors": n}\<close>. A Python dict keeps its keys in the order of their
  first insertion, which the second loop then follows: the dict is an association list,
  a new key going to the end.
\<close>

record bucket =
  samples :: "real list"
  errors :: nat

fun agg_add :: "json \<Rightarrow> real \<Rightarrow> int \<Rightarrow> (json \<times> bucket) list \<Rightarrow> (json \<times> bucket) list" where
  "agg_add lab rt succ [] =
     [(lab, \<lparr>samples = [rt], errors = (if succ = 0 then 1 else 0)\<rparr>)]"
| "agg_add lab rt succ ((l, d) # rest) =
     (if l = lab
      then (l, \<lparr>samples = samples d @ [rt],
                errors = errors d + (if succ = 0 then 1 else 0)\<rparr>) # rest
      else (l, d) # agg_add lab rt succ rest)"

fun group_rows :: "(json \<times> bucket) list \<Rightarrow> (json \<times> real \<times> int) list \<Rightarrow> (json \<times> bucket) list" where
  "group_rows agg [] = agg"
| "group_rows agg ((lab, rt, succ) # rows) = group_rows (agg_add lab rt succ agg) rows"

record agg_row =
  row_label :: json
  row_count :: nat
  row_avg :: real
  row_min :: real
  row_max :: real
  row_pct90 :: real
  row_pct95 :: real
  row_pct99 :: real
  row_error_pct :: real

text \<open>\<open>round((errors/count)*100, 2) if count else 0\<close>.\<close>

definition err_pct_of :: "nat \<Rightarrow> nat \<Rightarrow> real" where
  "err_pct_of errs cnt = (if cnt \<noteq> 0 then round2 (real errs / real cnt * 100) else 0)"

text \<open>\<open>round(percentile(s, p), 2) if s else 0\<close>.\<close>

definition pct_field :: "real list \<Rightarrow> real \<Rightarrow> py_error + real" where
  "pct_field s p =
     (if s \<noteq> [] then
        (case percentile s p of Inl e \<Rightarrow> Inl e | Inr v \<Rightarrow> py_round2 v)
      else Inr 0)"

text \<open>The body of the second loop: the row of one label.\<close>

definition make_row :: "json \<times> bucket \<Rightarrow> py_error + agg_row" where
  "make_row ld =
     (let lab = fst ld; d = snd ld;
          s = sort (samples d);
          cnt = length s;
          av = (if cnt \<noteq> 0 then round2 (sum_list s / real cnt) else 0);
          mn = (if s \<noteq> [] then hd s else 0);
          mx = (if s \<noteq> [] then last s else 0)
      in case pct_field s 90 of
           Inl e \<Rightarrow> Inl e
         | Inr p90 \<Rightarrow>
             (case pct_field s 95 of
                Inl e \<Rightarrow> Inl e
              | Inr p95 \<Rightarrow>
                  (case pct_field s 99 of
                     Inl e \<Rightarrow> Inl e
                   | Inr p99 \<Rightarrow>
                       Inr \<lparr>row_label = lab, row_count = cnt, row_avg = av, row_min = mn,
                            row_max = mx, row_pct90 = p90, row_pct95 = p95, row_pct99 = p99,
                            row_error_pct = err_pct_of (errors d) cnt\<rparr>)))"

text \<open>Running a loop body over a list stops at the first exception.\<close>

fun collect :: "('a \<Rightarrow> py_error + 'b) \<Rightarrow> 'a list \<Rightarrow> py_error + 'b list" where
  "collect f [] = Inr []"
| "collect f (x # xs) =
     (case f x of
        Inl e \<Rightarrow> Inl e
      | Inr y \<Rightarrow> (case collect f xs of Inl e \<Rightarrow> Inl e | Inr ys \<Rightarrow> Inr (y # ys)))"

text \<open>
  The conditions for the optional query arguments: \<open>if label:\<close>, \<open>if start:\<close> and
  \<open>if end:\<close> test the truth value, so an empty label and a bound of 0 add nothing.
\<close>

definition label_cond :: "string option \<Rightarrow> cond list" where
  "label_cond lab = (case lab of Some l \<Rightarrow> (if l \<noteq> [] then [LabelEq l] else []) | None \<Rightarrow> [])"

definition start_cond :: "int option \<Rightarrow> cond list" where
  "start_cond start = (case start of Some t \<Rightarrow> (if t \<noteq> 0 then [TsGe t] else []) | None \<Rightarrow> [])"

definition end_cond :: "int option \<Rightarrow> cond list" where
  "end_cond end' = (case end' of Some t \<Rightarrow> (if t \<noteq> 0 then [TsLe t] else []) | None \<Rightarrow> [])"

text \<open>
  \<open>sorted(res, key=lambda x: x["count"], reverse=True)\<close> is a stable sort: rows of equal
  count keep their order. \<open>sort_key\<close> on the negated count is that sort.
\<close>

definition sort_count_desc :: "agg_row list \<Rightarrow> agg_row list" where
  "sort_count_desc res = sort_key (\<lambda>r. - int (row_count r)) res"

definition aggregate_rows :: "sample list \<Rightarrow> string option \<Rightarrow> int option \<Rightarrow> int option \<Rightarrow> (json \<times> real \<times> int) list" where
  "aggregate_rows store lab start end' =
     map (\<lambda>s. (label s, response_time s, success s))
       (run_select (label_cond lab @ start_cond start @ end_cond end') store)"

definition api_aggregate ::
  "sample list \<Rightarrow> string option \<Rightarrow> int option \<Rightarrow> int option \<Rightarrow> py_error + agg_row list" where
  "api_aggregate store lab start end' =
     (let rows = aggregate_rows store lab start end';
          agg = group_rows [] rows
      in case collect make_row agg of
           Inl e \<Rightarrow> Inl e
         | Inr res \<Rightarrow> Inr (sort_count_desc res))"

section \<open>Time series: \<open>api_tps\<close>, \<open>api_threads\<close>, \<open>api_errorpct\<close>\<close>

text \<open>\<open>request.args.get("end", type=int) or int(time.time())\<close>.\<close>

definition end_or_now :: "int option \<Rightarrow> real \<Rightarrow> int" where
  "end_or_now end' now =
     (case end' of Some e \<Rightarrow> (if e \<noteq> 0 then e else py_int_of_float now)
      | None \<Rightarrow> py_int_of_float now)"

text \<open>\<open>request.args.get("window", default=60, type=int)\<close>.\<close>

definition window_or_60 :: "int option \<Rightarrow> int" where
  "window_or_60 window = (case window of Some w \<Rightarrow> w | None \<Rightarrow> 60)"

text \<open>\<open>ts_map.get(sec, 0)\<close> for every \<open>sec\<close> of \<open>range(start, end + 1)\<close>.\<close>

definition fill_series :: "(int \<Rightarrow> 'v option) \<Rightarrow> 'v \<Rightarrow> int \<Rightarrow> int \<Rightarrow> int list \<times> 'v list" where
  "fill_series ts_map zero start end' =
     ([start..end'], map (\<lambda>sec. case ts_map sec of Some v \<Rightarrow> v | None \<Rightarrow> zero) [start..end'])"

definition api_tps :: "sample list \<Rightarrow> real \<Rightarrow> int option \<Rightarrow> int option \<Rightarrow> int list \<times> int list" where
  "api_tps store now window end' =
     (let w = window_or_60 window;
          e = end_or_now end' now;
          start = e - w + 1;
          rows = sql_count_by_ts [TsBetween start e] store
      in fill_series (dict_of_rows rows) 0 start e)"





section \<open>Breakdowns: \<open>api_errors\<close>, \<open>api_success\<close>\<close>

text \<open>
  Both handlers leave grouping, counting and ordering to SQL
  (\<open>GROUP BY ... ORDER BY COUNT(*) DESC\<close>, \<open>GROUP_CONCAT(DISTINCT error_message)\<close>). SQL
  fixes neither the order of groups of equal count nor the order of the concatenation, so
  the engine's evaluation of that part, over the rows the WHERE clause selects, is a
  parameter; the WHERE clause and the Python that follows the query are modelled.
\<close>

record error_row =
  err_label :: json
  err_status :: string
  err_count :: int
  err_message :: string

definition api_errors ::
  "(sample list \<Rightarrow> (json \<times> string \<times> int \<times> string option) list) \<Rightarrow>
   sample list \<Rightarrow> int option \<Rightarrow> int option \<Rightarrow> error_row list" where
  "api_errors group_by store start end' =
     (let rows = group_by (run_select ([SuccessEq 0] @ start_cond start @ end_cond end') store)
      in map (\<lambda>(l, st, c, m).
                \<lparr>err_label = l, err_status = st, err_count = c,
                 err_message = (case m of Some t \<Rightarrow> (if t \<noteq> [] then t else []) | None \<Rightarrow> [])\<rparr>)
           rows)"

record success_row =
  succ_label :: json
  succ_count :: int
  succ_avg :: real
  succ_min :: real
  succ_max :: real

definition api_success ::
  "(sample list \<Rightarrow> (json \<times> int \<times> real \<times> real \<times> real) list) \<Rightarrow>
   sample list \<Rightarrow> int option \<Rightarrow> int option \<Rightarrow> success_row list" where
  "api_success group_by store start end' =
     (let rows = group_by (run_select ([SuccessEq 1] @ start_cond start @ end_cond end') store)
      in map (\<lambda>(l, c, a, mn, mx).
                \<lparr>succ_label = l, succ_count = c, succ_avg = round2 a, succ_min = mn, succ_max = mx\<rparr>)
           rows)"

section \<open>The server: table and clock\<close>

text \<open>
  What a request can read or change: the table and the clock. A route takes the state and
  returns its response with the state afterwards.
\<close>

record server_state =
  db :: "sample list"
  clock :: real

definition route_metrics ::
  "py_runtime \<Rightarrow> json \<Rightarrow> server_state \<Rightarrow> (py_error + http_response) \<times> server_state" where
  "route_metrics R data w =
     (case receive_metrics R (clock w) data (db w) of
        Inl e \<Rightarrow> (Inl e, w)
      | Inr (resp, store') \<Rightarrow> (Inr resp, w\<lparr>db := store'\<rparr>))"


definition route_tps ::
  "int option \<Rightarrow> int option \<Rightarrow> server_state \<Rightarrow> (int list \<times> int list) \<times> server_state" where
  "route_tps window end' w = (api_tps (db w) (clock w) window end', w)"

section \<open>Notions of the specification\<close>

text \<open>
  The definitions of this section follow the words of the specification, not the code;
  the theorems compare the code with them.
\<close>

text \<open>The distinct elements of a list in the order of their first occurrence.\<close>

definition first_occ :: "'a list \<Rightarrow> 'a list" where
  "first_occ xs = rev (remdups (rev xs))"





text \<open>A first-present-wins alias chain: the value of the first key of \<open>ks\<close> the payload
  has, else the default.\<close>

fun first_present :: "string list \<Rightarrow> json \<Rightarrow> (string \<times> json) list \<Rightarrow> json" where
  "first_present [] dflt d = dflt"
| "first_present (k # ks) dflt d =
     (case map_of d k of Some v \<Rightarrow> v | None \<Rightarrow> first_present ks dflt d)"




text \<open>A runtime that parses no string, for the examples.\<close>

definition no_text_runtime :: py_runtime where
  "no_text_runtime =
     \<lparr>str_to_float = (\<lambda>s. None), str_to_int = (\<lambda>s. None), str_of_other = (\<lambda>v. [])\<rparr>"

text \<open>A sample as \<open>receive_metrics\<close> stores it for a request with a label, a response time
  and a success flag, for the examples.\<close>

definition example_sample :: "int \<Rightarrow> string \<Rightarrow> real \<Rightarrow> int \<Rightarrow> sample" where
  "example_sample t l r s =
     \<lparr>timestamp = t, label = JStr l, response_time = r, success = s, thread_count = 0,
      status_code = ''200'', error_message = JStr []\<rparr>"

section \<open>Percentile calculator: range of the result\<close>











section \<open>Time series: every second of the window\<close>














section \<open>Aggregate: grouping, rows and counts\<close>


lemma first_occ_set [simp]: "set (first_occ xs) = set xs"
  by (simp add: first_occ_def)




















section \<open>Aggregate: the order of the rows\<close>







section \<open>Percentile of the empty sequence\<close>





section \<open>Time series: empty windows\<close>









section \<open>Aggregate: a function of the table and the filters\<close>


section \<open>Time bounds of 0\<close>

text \<open>
  Claim C10. A time bound of 0 is an absent bound: \<open>api_aggregate\<close>, \<open>api_errors\<close> and
  \<open>api_success\<close> return for \<open>start = 0\<close> what they return without a start, and for
  \<open>end = 0\<close> what they return without an end.
\<close>

theorem zero_bound_is_absent:
  "api_aggregate store lab (Some 0) end' = api_aggregate store lab None end'
   \<and> api_aggregate store lab start (Some 0) = api_aggregate store lab start None
   \<and> api_errors g store (Some 0) end' = api_errors g store None end'
   \<and> api_errors g store start (Some 0) = api_errors g store start None
   \<and> api_success h store (Some 0) end' = api_success h store None end'
   \<and> api_success h store start (Some 0) = api_success h store start None"
  by (simp add: api_aggregate_def aggregate_rows_def api_errors_def api_success_def
      start_cond_def end_cond_def)

text \<open>So an end bound of 0 keeps a sample stored at second 5, where a bound of 4 drops it.\<close>

lemma end_bound_zero_selects_later_sample:
  "run_select (label_cond None @ start_cond None @ end_cond (Some 0)) [example_sample 5 ''a'' 1 1]
     = [example_sample 5 ''a'' 1 1]
   \<and> run_select (label_cond None @ start_cond None @ end_cond (Some 4)) [example_sample 5 ''a'' 1 1]
     = []"
  by (simp add: run_select_def label_cond_def start_cond_def end_cond_def example_sample_def)

section \<open>Ingest: what a request stores\<close>

lemma dict_get_chain2:
  "dict_get d k1 (dict_get d k2 dflt) = first_present [k1, k2] dflt d"
  by (simp add: dict_get_def split: option.splits)



text \<open>The body of \<open>receive_metrics\<close> on a non-empty object, step by step.\<close>

lemma receive_metrics_object:
  assumes "d \<noteq> []"
  shows "receive_metrics R now (JObj d) store =
     (case payload_success d of
        Inl e \<Rightarrow> Inl e
      | Inr succ \<Rightarrow>
         (case py_to_int R (dict_get d ''activeThreads'' (dict_get d ''threads'' (JInt 0))) of
            Inl e \<Rightarrow> Inl e
          | Inr tc \<Rightarrow>
             (case py_float R (dict_get d ''responseTime''
                      (dict_get d ''avgResponseTime'' (dict_get d ''avg'' (JFloat 0)))) of
                Inl e \<Rightarrow> Inl e
              | Inr rtf \<Rightarrow>
                 (case bind_all [JInt (py_int_of_float now),
                                 dict_get d ''label'' (dict_get d ''sampler'' (JStr ''ALL'')),
                                 JInt tc,
                                 (if succ = 0
                                  then dict_get d ''errorMessage'' (dict_get d ''errorMsg'' (JStr []))
                                  else JStr [])] of
                    Some e \<Rightarrow> Inl e
                  | None \<Rightarrow>
                      Inr (Ok200, store @
                        [\<lparr>timestamp = py_int_of_float now,
                          label = dict_get d ''label'' (dict_get d ''sampler'' (JStr ''ALL'')),
                          response_time = rtf, success = succ, thread_count = tc,
                          status_code = py_str R (dict_get d ''statusCode'' (dict_get d ''rc'' (JStr ''200''))),
                          error_message =
                            (if succ = 0
                             then dict_get d ''errorMessage'' (dict_get d ''errorMsg'' (JStr []))
                             else JStr [])\<rparr>])))))"
  using assms unfolding receive_metrics_def Let_def by simp


lemma receive_metrics_Ok200:
  assumes "receive_metrics R now data store = Inr (Ok200, store')"
  shows "\<exists>d succ tc rtf. data = JObj d \<and> d \<noteq> []
          \<and> payload_success d = Inr succ
          \<and> py_to_int R (dict_get d ''activeThreads'' (dict_get d ''threads'' (JInt 0))) = Inr tc
          \<and> py_float R (dict_get d ''responseTime''
               (dict_get d ''avgResponseTime'' (dict_get d ''avg'' (JFloat 0)))) = Inr rtf
          \<and> store' = store @
               [\<lparr>timestamp = py_int_of_float now,
                 label = dict_get d ''label'' (dict_get d ''sampler'' (JStr ''ALL'')),
                 response_time = rtf, success = succ, thread_count = tc,
                 status_code = py_str R (dict_get d ''statusCode'' (dict_get d ''rc'' (JStr ''200''))),
                 error_message = (if succ = 0
                                  then dict_get d ''errorMessage'' (dict_get d ''errorMsg'' (JStr []))
                                  else JStr [])\<rparr>]"
proof -
  have truthy: "truthy data"
    using assms by (auto simp: receive_metrics_def split: if_splits)
  obtain d where d: "data = JObj d"
    using assms truthy by (cases data) (simp_all add: receive_metrics_def)
  have ne: "d \<noteq> []" using truthy d by simp
  note eq = assms[unfolded d receive_metrics_object[OF ne]]
  obtain succ where ps: "payload_success d = Inr succ"
    using eq by (cases "payload_success d") simp_all
  obtain tc where tc: "py_to_int R (dict_get d ''activeThreads'' (dict_get d ''threads'' (JInt 0))) = Inr tc"
    using eq ps
    by (cases "py_to_int R (dict_get d ''activeThreads'' (dict_get d ''threads'' (JInt 0)))") simp_all
  obtain rtf where rt: "py_float R (dict_get d ''responseTime''
               (dict_get d ''avgResponseTime'' (dict_get d ''avg'' (JFloat 0)))) = Inr rtf"
    using eq ps tc
    by (cases "py_float R (dict_get d ''responseTime''
               (dict_get d ''avgResponseTime'' (dict_get d ''avg'' (JFloat 0))))") simp_all
  have "store' = store @
               [\<lparr>timestamp = py_int_of_float now,
                 label = dict_get d ''label'' (dict_get d ''sampler'' (JStr ''ALL'')),
                 response_time = rtf, success = succ, thread_count = tc,
                 status_code = py_str R (dict_get d ''statusCode'' (dict_get d ''rc'' (JStr ''200''))),
                 error_message = (if succ = 0
                                  then dict_get d ''errorMessage'' (dict_get d ''errorMsg'' (JStr []))
                                  else JStr [])\<rparr>]"
    using eq unfolding ps tc rt sum.case
    by (auto split: option.splits)
  with d ne ps tc rt show ?thesis by blast
qed

lemma payload_success_cases:
  assumes "payload_success d = Inr succ"
  shows "succ = 0 \<or> succ = 1"
    and "map_of d ''success'' = Some (JBool b) \<Longrightarrow> succ = (if b then 1 else 0)"
    and "map_of d ''success'' = None \<Longrightarrow> map_of d ''errorPct'' = Some (JFloat x)
           \<Longrightarrow> (succ = 1 \<longleftrightarrow> x \<le> 0)"
    and "map_of d ''success'' = None \<Longrightarrow> map_of d ''errorPct'' = Some (JInt i)
           \<Longrightarrow> (succ = 1 \<longleftrightarrow> i \<le> 0)"
    and "map_of d ''success'' = None \<Longrightarrow> map_of d ''errorPct'' = None \<Longrightarrow> succ = 1"
proof -
  show "succ = 0 \<or> succ = 1"
    using assms
    by (cases "py_gt_zero (dict_get d ''errorPct'' (JInt 0))")
       (auto simp: payload_success_def split: if_splits)
  show "succ = (if b then 1 else 0)" if "map_of d ''success'' = Some (JBool b)"
    using assms that by (simp add: payload_success_def dict_has_def dict_get_def)
  show "succ = 1 \<longleftrightarrow> x \<le> 0"
    if "map_of d ''success'' = None" "map_of d ''errorPct'' = Some (JFloat x)"
    using assms that by (auto simp: payload_success_def dict_has_def dict_get_def split: if_splits)
  show "succ = 1 \<longleftrightarrow> i \<le> 0"
    if "map_of d ''success'' = None" "map_of d ''errorPct'' = Some (JInt i)"
    using assms that by (auto simp: payload_success_def dict_has_def dict_get_def split: if_splits)
  show "succ = 1" if "map_of d ''success'' = None" "map_of d ''errorPct'' = None"
    using assms that by (simp add: payload_success_def dict_has_def)
qed




text \<open>
  Claim C6, as amended. For every sample \<open>receive_metrics\<close> appends, success is 1 or 0;
  if success is true the error message is the empty string, whatever the payload holds;
  if success is false the error message is the payload's \<open>errorMessage\<close>, else its
  \<open>errorMsg\<close>, else the empty string.
\<close>

theorem success_forces_empty_error_message:
  assumes "receive_metrics R now data store = Inr (Ok200, store')"
  shows "\<exists>s d. data = JObj d \<and> store' = store @ [s]
      \<and> (success s = 0 \<or> success s = 1)
      \<and> (success s = 1 \<longrightarrow> error_message s = JStr [])
      \<and> (success s = 0 \<longrightarrow>
            error_message s = first_present [''errorMessage'', ''errorMsg''] (JStr []) d)"
proof -
  from receive_metrics_Ok200[OF assms]
  obtain d succ tc rtf where d: "data = JObj d" and ps: "payload_success d = Inr succ"
    and st: "store' = store @
               [\<lparr>timestamp = py_int_of_float now,
                 label = dict_get d ''label'' (dict_get d ''sampler'' (JStr ''ALL'')),
                 response_time = rtf, success = succ, thread_count = tc,
                 status_code = py_str R (dict_get d ''statusCode'' (dict_get d ''rc'' (JStr ''200''))),
                 error_message = (if succ = 0
                                  then dict_get d ''errorMessage'' (dict_get d ''errorMsg'' (JStr []))
                                  else JStr [])\<rparr>]"
    by blast
  have "succ = 0 \<or> succ = 1" using ps by (rule payload_success_cases(1))
  then show ?thesis
    unfolding dict_get_chain2[symmetric] using d st by auto
qed

theorem success_forces_empty_error_message_witness:
  "receive_metrics no_text_runtime 1000
     (JObj [(''success'', JBool True), (''errorMessage'', JStr ''boom'')]) []
     = Inr (Ok200,
            [\<lparr>timestamp = 1000, label = JStr ''ALL'', response_time = 0, success = 1,
              thread_count = 0, status_code = ''200'', error_message = JStr []\<rparr>])
   \<and> receive_metrics no_text_runtime 1000
     (JObj [(''success'', JBool False), (''errorMessage'', JStr ''boom'')]) []
     = Inr (Ok200,
            [\<lparr>timestamp = 1000, label = JStr ''ALL'', response_time = 0, success = 0,
              thread_count = 0, status_code = ''200'', error_message = JStr ''boom''\<rparr>])"
proof -
  have a: "receive_metrics no_text_runtime 1000
     (JObj [(''success'', JBool True), (''errorMessage'', JStr ''boom'')]) []
     = Inr (Ok200,
            [\<lparr>timestamp = 1000, label = JStr ''ALL'', response_time = 0, success = 1,
              thread_count = 0, status_code = ''200'', error_message = JStr []\<rparr>])"
    by code_simp
  have b: "receive_metrics no_text_runtime 1000
     (JObj [(''success'', JBool False), (''errorMessage'', JStr ''boom'')]) []
     = Inr (Ok200,
            [\<lparr>timestamp = 1000, label = JStr ''ALL'', response_time = 0, success = 0,
              thread_count = 0, status_code = ''200'', error_message = JStr ''boom''\<rparr>])"
    by code_simp
  from success_forces_empty_error_message[OF a] a b show ?thesis by simp
qed

text \<open>
  The claim as stated is an equivalence. A failed request that carries no message is stored
  with success 0 and the empty error message.
\<close>

theorem failure_with_empty_message_counterexample:
  "receive_metrics no_text_runtime 1000 (JObj [(''success'', JBool False)]) []
     = Inr (Ok200,
            [\<lparr>timestamp = 1000, label = JStr ''ALL'', response_time = 0, success = 0,
              thread_count = 0, status_code = ''200'', error_message = JStr []\<rparr>])"
  by code_simp

text \<open>A table filled by \<open>receive_metrics\<close> holds no other success value than 1 and 0.\<close>

lemma receive_metrics_keeps_success_flags:
  assumes "\<forall>s \<in> set store. success s = 0 \<or> success s = 1"
    and "receive_metrics R now data store = Inr (resp, store')"
  shows "\<forall>s \<in> set store'. success s = 0 \<or> success s = 1"
proof (cases resp)
  case Ok200
  with receive_metrics_Ok200[of R now data store store'] assms(2)
  obtain d succ s where "payload_success d = Inr succ" "store' = store @ [s]" "success s = succ"
    by auto
  with payload_success_cases(1)[of d succ] assms(1) show ?thesis
    by auto
next
  case NoJson400
  have "store' = store"
  proof (cases "truthy data")
    case False
    with assms(2) show ?thesis by (simp add: receive_metrics_def)
  next
    case True
    then obtain d where "data = JObj d" "d \<noteq> []"
      using assms(2) by (cases data) (simp_all add: receive_metrics_def)
    with assms(2) NoJson400 show ?thesis
      by (auto simp: receive_metrics_object split: sum.splits option.splits)
  qed
  with assms(1) show ?thesis by simp
qed

end
